theory Spec2Isabelle
  imports Complex_Main "HOL-Library.Char_ord" "HOL-Library.List_Lexorder"
begin

section \<open>Python floats and exceptions\<close>

text \<open>
  Both programs compute on Python floats. A float is modelled as a finite real number,
  one of the two infinities, or NaN. Sums, differences and quotients of finite floats are
  exact. A product of finite floats is exact within the range of the floats, zero when it
  is too small (underflow) and an infinity when it is too large (overflow): the programs
  compare two factors with zero and then divide by their product, so whether a product
  is zero decides what they do. Rounding within the range and the sign of zero are
  outside the model. Also kept are the comparison with zero, the propagation of NaN and
  of the infinities, and the \<open>ZeroDivisionError\<close> that Python raises for a float division
  by zero (whatever the dividend is).
\<close>

datatype pyfloat = Fin real | PInf | NInf | NaN

datatype error = ZeroDivisionError | ValueError | TypeError | AttributeError | KeyError | OperationalError

fun is_finite :: "pyfloat \<Rightarrow> bool" where
  "is_finite (Fin x) = True"
| "is_finite _ = False"

fun fneg :: "pyfloat \<Rightarrow> pyfloat" where
  "fneg (Fin x) = Fin (- x)"
| "fneg PInf = NInf"
| "fneg NInf = PInf"
| "fneg NaN = NaN"

fun fadd :: "pyfloat \<Rightarrow> pyfloat \<Rightarrow> pyfloat" where
  "fadd (Fin x) (Fin y) = Fin (x + y)"
| "fadd NaN _ = NaN"
| "fadd _ NaN = NaN"
| "fadd PInf NInf = NaN"
| "fadd NInf PInf = NaN"
| "fadd PInf _ = PInf"
| "fadd _ PInf = PInf"
| "fadd NInf _ = NInf"
| "fadd _ NInf = NInf"

definition fsub :: "pyfloat \<Rightarrow> pyfloat \<Rightarrow> pyfloat" where
  "fsub a b = fadd a (fneg b)"

text \<open>The sign of a float that is not NaN: \<open>-1\<close>, \<open>0\<close> or \<open>1\<close>.\<close>

fun fsign :: "pyfloat \<Rightarrow> int" where
  "fsign (Fin x) = (if x < 0 then - 1 else if x = 0 then 0 else 1)"
| "fsign PInf = 1"
| "fsign NInf = - 1"
| "fsign NaN = 0"

definition inf_of_sign :: "int \<Rightarrow> pyfloat" where
  "inf_of_sign s = (if s = 0 then NaN else if s < 0 then NInf else PInf)"

text \<open>
  The float nearest to a real number, as far as its range goes: a number of magnitude
  at most \<open>2\<^sup>-\<^sup>1\<^sup>0\<^sup>7\<^sup>5\<close> (half the least positive float) becomes zero, one of
  magnitude \<open>2\<^sup>1\<^sup>0\<^sup>2\<^sup>4 - 2\<^sup>9\<^sup>7\<^sup>0\<close> or more (the greatest float plus half a step) becomes
  an infinity, and one in between is kept as it is.
\<close>

definition to_float :: "real \<Rightarrow> pyfloat" where
  "to_float r =
     (if \<bar>r\<bar> \<le> 1 / 2 ^ 1075 then Fin 0
      else if 2 ^ 1024 - 2 ^ 970 \<le> \<bar>r\<bar> then (if r < 0 then NInf else PInf)
      else Fin r)"

fun fmul :: "pyfloat \<Rightarrow> pyfloat \<Rightarrow> pyfloat" where
  "fmul (Fin x) (Fin y) = to_float (x * y)"
| "fmul NaN _ = NaN"
| "fmul _ NaN = NaN"
| "fmul a b = inf_of_sign (fsign a * fsign b)"

text \<open>
  Python's \<open>a / b\<close> on floats: a zero divisor raises, before anything else is looked at.
\<close>

fun fdiv :: "pyfloat \<Rightarrow> pyfloat \<Rightarrow> error + pyfloat" where
  "fdiv a (Fin y) =
     (if y = 0 then Inl ZeroDivisionError
      else (case a of
        Fin x \<Rightarrow> Inr (Fin (x / y))
      | NaN \<Rightarrow> Inr NaN
      | _ \<Rightarrow> Inr (inf_of_sign (fsign a * fsign (Fin y)))))"
| "fdiv NaN _ = Inr NaN"
| "fdiv _ NaN = Inr NaN"
| "fdiv (Fin x) _ = Inr (Fin 0)"
| "fdiv _ _ = Inr NaN"

text \<open>Python's \<open>x == 0\<close>, \<open>x > 0\<close> and \<open>x < 0\<close>; every comparison with NaN is false.\<close>

fun is_zero :: "pyfloat \<Rightarrow> bool" where
  "is_zero (Fin x) = (x = 0)"
| "is_zero _ = False"

fun fpos :: "pyfloat \<Rightarrow> bool" where
  "fpos (Fin x) = (0 < x)"
| "fpos PInf = True"
| "fpos _ = False"

fun fnegative :: "pyfloat \<Rightarrow> bool" where
  "fnegative (Fin x) = (x < 0)"
| "fnegative NInf = True"
| "fnegative _ = False"

section \<open>The calculation functions of \<open>trade_tracker.py\<close>\<close>

text \<open>
  The module-level functions are called with floats only (parsed by \<open>_float_or_error\<close>
  and \<open>_float_or_none\<close>, or read from the instrument table), so each \<open>float(x)\<close>
  conversion is the identity and the \<open>except\<close> branches around them are never entered.
  The direction is the string the caller passes: anything but \<open>''Long''\<close> is treated as
  a short position.
\<close>

definition calc_pips :: "pyfloat \<Rightarrow> pyfloat \<Rightarrow> pyfloat \<Rightarrow> string \<Rightarrow> error + pyfloat" where
  "calc_pips entry price pip_size direction =
     (if direction = ''Long'' then fdiv (fsub price entry) pip_size
      else fdiv (fsub entry price) pip_size)"

definition pip_value_usd :: "pyfloat \<Rightarrow> pyfloat \<Rightarrow> bool \<Rightarrow> pyfloat \<Rightarrow> pyfloat" where
  "pip_value_usd pip_size contract_size quote_usd quote_to_usd_rate =
     (let base = fmul pip_size contract_size in
      if quote_usd then base
      else if is_zero quote_to_usd_rate then base
      else (case fdiv base quote_to_usd_rate of Inl e \<Rightarrow> base | Inr v \<Rightarrow> v))"

definition usd_from_pips :: "pyfloat \<Rightarrow> pyfloat \<Rightarrow> pyfloat \<Rightarrow> pyfloat" where
  "usd_from_pips pips pip_value_per_lot lots = fmul (fmul pips pip_value_per_lot) lots"

text \<open>\<open>None\<close> is the function's own "no price" answer; \<open>Inl\<close> is a raised exception.\<close>

definition price_from_usd_target ::
  "pyfloat \<Rightarrow> string \<Rightarrow> pyfloat \<Rightarrow> pyfloat \<Rightarrow> pyfloat \<Rightarrow> bool \<Rightarrow> pyfloat \<Rightarrow> pyfloat
   \<Rightarrow> error + pyfloat option" where
  "price_from_usd_target entry direction usd_target pip_size contract_size quote_usd quote_rate lots =
     (let pip_val = pip_value_usd pip_size contract_size quote_usd quote_rate in
      if is_zero pip_val \<or> is_zero lots then Inr None
      else (case fdiv usd_target (fmul pip_val lots) of
        Inl e \<Rightarrow> Inl e
      | Inr pips_needed \<Rightarrow>
          (let price_diff = fmul pips_needed pip_size in
           if direction = ''Long'' then Inr (Some (fadd entry price_diff))
           else Inr (Some (fsub entry price_diff)))))"

section \<open>\<open>TradeCalculator\<close> of \<open>trade_tracker_1.py\<close>\<close>

definition calc_pips_1 :: "pyfloat \<Rightarrow> pyfloat \<Rightarrow> pyfloat \<Rightarrow> string \<Rightarrow> error + pyfloat" where
  "calc_pips_1 entry price pip_size direction =
     (if direction = ''Long'' then fdiv (fsub price entry) pip_size
      else fdiv (fsub entry price) pip_size)"

definition pip_value_usd_1 :: "pyfloat \<Rightarrow> pyfloat \<Rightarrow> bool \<Rightarrow> pyfloat \<Rightarrow> error + pyfloat" where
  "pip_value_usd_1 pip_size contract_size quote_usd quote_to_usd_rate =
     (let base = fmul pip_size contract_size in
      if quote_usd then Inr base else fdiv base quote_to_usd_rate)"

definition usd_from_pips_1 :: "pyfloat \<Rightarrow> pyfloat \<Rightarrow> pyfloat \<Rightarrow> pyfloat" where
  "usd_from_pips_1 pips pip_value_per_lot lots = fmul (fmul pips pip_value_per_lot) lots"

definition price_from_usd_target_1 ::
  "pyfloat \<Rightarrow> string \<Rightarrow> pyfloat \<Rightarrow> pyfloat \<Rightarrow> pyfloat \<Rightarrow> bool \<Rightarrow> pyfloat \<Rightarrow> pyfloat
   \<Rightarrow> error + pyfloat option" where
  "price_from_usd_target_1 entry direction usd_target pip_size contract_size quote_usd quote_rate lots =
     (case pip_value_usd_1 pip_size contract_size quote_usd quote_rate of
        Inl e \<Rightarrow> Inl e
      | Inr pip_val \<Rightarrow>
          (if is_zero pip_val \<or> is_zero lots then Inr None
           else (case fdiv usd_target (fmul pip_val lots) of
             Inl e \<Rightarrow> Inl e
           | Inr pips_needed \<Rightarrow>
               (let price_diff = fmul pips_needed pip_size in
                if direction = ''Long'' then Inr (Some (fadd entry price_diff))
                else Inr (Some (fsub entry price_diff))))))"

section \<open>The instrument table\<close>

text \<open>
  The table \<open>INSTRUMENTS\<close> is the same in both files. Its decimal literals are taken as
  the exact decimals they denote.
\<close>

record instrument_info =
  pip :: pyfloat
  contract :: pyfloat
  quote_usd :: bool
  desc :: string

definition INSTRUMENTS :: "(string \<times> instrument_info) list" where
  "INSTRUMENTS =
    [(''XAUUSD'', \<lparr>pip = Fin (1/100), contract = Fin 100, quote_usd = True,
        desc = ''Gold (pip=0.01)''\<rparr>),
     (''BTCUSD'', \<lparr>pip = Fin 1, contract = Fin 1, quote_usd = True,
        desc = ''Bitcoin (pip=1)''\<rparr>),
     (''US30'', \<lparr>pip = Fin 1, contract = Fin 1, quote_usd = True,
        desc = ''US30 index (point=1)''\<rparr>),
     (''NASDAQ100'', \<lparr>pip = Fin 1, contract = Fin 1, quote_usd = True,
        desc = ''NASDAQ100 (point=1)''\<rparr>),
     (''USDJPY'', \<lparr>pip = Fin (1/100), contract = Fin 100000, quote_usd = False,
        desc = ''USD/JPY (pip=0.01, quote JPY)''\<rparr>),
     (''GBPJPY'', \<lparr>pip = Fin (1/100), contract = Fin 100000, quote_usd = False,
        desc = ''GBP/JPY (pip=0.01, quote JPY)''\<rparr>),
     (''AUDUSD'', \<lparr>pip = Fin (1/10000), contract = Fin 100000, quote_usd = True,
        desc = ''AUD/USD (pip=0.0001)''\<rparr>)]"

text \<open>\<open>INSTRUMENTS[inst]\<close>: a missing key raises \<open>KeyError\<close>.\<close>

definition lookup_instrument :: "string \<Rightarrow> error + instrument_info" where
  "lookup_instrument inst =
     (case map_of INSTRUMENTS inst of None \<Rightarrow> Inl KeyError | Some info \<Rightarrow> Inr info)"

section \<open>The trade store \<open>TradeDB\<close> of \<open>trade_tracker_1.py\<close>\<close>

text \<open>
  A trade is the dictionary that \<open>save_trade\<close> builds and the row that the table
  \<open>trades\<close> keeps: eighteen columns after the \<open>id\<close>. A \<open>REAL\<close> column holds a float or
  \<open>NULL\<close> (\<open>None\<close>).
\<close>

record trade_data =
  timestamp :: string
  instrument :: string
  direction :: string
  entry :: "pyfloat option"
  stop :: "pyfloat option"
  target :: "pyfloat option"
  exit :: "pyfloat option"
  lots :: "pyfloat option"
  contract_size :: "pyfloat option"
  pip_size :: "pyfloat option"
  quote_to_usd :: "pyfloat option"
  pips_to_sl :: "pyfloat option"
  usd_to_sl :: "pyfloat option"
  pips_to_tp :: "pyfloat option"
  usd_to_tp :: "pyfloat option"
  realized_pips :: "pyfloat option"
  realized_usd :: "pyfloat option"
  "notes" :: string

type_synonym trade_row = "int \<times> trade_data"

text \<open>SQLite stores a NaN that is bound to a statement as \<open>NULL\<close>.\<close>

fun bind_real :: "pyfloat option \<Rightarrow> pyfloat option" where
  "bind_real (Some NaN) = None"
| "bind_real v = v"

definition bind_trade :: "trade_data \<Rightarrow> trade_data" where
  "bind_trade t = t\<lparr>entry := bind_real (entry t), stop := bind_real (stop t),
     target := bind_real (target t), exit := bind_real (exit t), lots := bind_real (lots t),
     contract_size := bind_real (contract_size t), pip_size := bind_real (pip_size t),
     quote_to_usd := bind_real (quote_to_usd t), pips_to_sl := bind_real (pips_to_sl t),
     usd_to_sl := bind_real (usd_to_sl t), pips_to_tp := bind_real (pips_to_tp t),
     usd_to_tp := bind_real (usd_to_tp t), realized_pips := bind_real (realized_pips t),
     realized_usd := bind_real (realized_usd t)\<rparr>"

text \<open>
  A value that a filter compares a column with, and the key of a cached query. The key
  string \<open>f"trades_{limit}_{filters}"\<close> is modelled by the pair it prints.
\<close>

datatype sqlval = SInt int | SReal pyfloat | SText string

type_synonym filters = "(string \<times> sqlval option) list option"

type_synonym cache_key = "int \<times> filters"

text \<open>
  The state of a \<open>TradeDB\<close>: the rows of the table in insertion order, the largest row id
  that \<open>AUTOINCREMENT\<close> has handed out, the connection's counter \<open>total_changes\<close> (the
  rows inserted, updated or deleted since the connection was opened) and the cache, whose
  entries carry the time they were stored at, in microseconds.
\<close>

record tradedb =
  rows :: "trade_row list"
  seq :: int
  total_changes :: nat
  cache :: "cache_key \<rightharpoonup> (int \<times> trade_row list)"

definition cache_expiry :: int where
  "cache_expiry = 5 * 60 * 1000000"

text \<open>\<open>TradeDB.__init__\<close> on a database file that holds \<open>rs\<close> and the sequence value \<open>sq\<close>.\<close>

definition TradeDB_init :: "trade_row list \<Rightarrow> int \<Rightarrow> tradedb" where
  "TradeDB_init rs sq = \<lparr>rows = rs, seq = sq, total_changes = 0, cache = Map.empty\<rparr>"

definition clear_cache :: "tradedb \<Rightarrow> tradedb" where
  "clear_cache db = db\<lparr>cache := Map.empty\<rparr>"

text \<open>The row id of the next insert: one more than the largest id used so far.\<close>

definition next_rowid :: "tradedb \<Rightarrow> int" where
  "next_rowid db = 1 + fold max (map fst (rows db)) (seq db)"

definition add_trade :: "trade_data \<Rightarrow> tradedb \<Rightarrow> int \<times> tradedb" where
  "add_trade td db =
     (let trade_id = next_rowid db in
      (trade_id,
       clear_cache (db\<lparr>rows := rows db @ [(trade_id, bind_trade td)], seq := trade_id,
                        total_changes := total_changes db + 1\<rparr>)))"

text \<open>
  The query that \<open>get_trades\<close> builds. A filter key is spliced into the statement as a
  column name; a key that is no column of \<open>trades\<close> makes SQLite reject the statement
  (\<open>OperationalError\<close>). A filter value is compared with a column of its own storage
  class (numbers with numbers, text with text); \<open>NULL\<close> and NaN equal nothing.
\<close>

definition column_names :: "string list" where
  "column_names = [''id'', ''timestamp'', ''instrument'', ''direction'', ''entry'', ''stop'',
     ''target'', ''exit'', ''lots'', ''contract_size'', ''pip_size'', ''quote_to_usd'',
     ''pips_to_sl'', ''usd_to_sl'', ''pips_to_tp'', ''usd_to_tp'', ''realized_pips'',
     ''realized_usd'', ''notes'']"

definition real_column :: "string \<Rightarrow> trade_data \<Rightarrow> pyfloat option" where
  "real_column k t =
     (if k = ''entry'' then entry t else if k = ''stop'' then stop t
      else if k = ''target'' then target t else if k = ''exit'' then exit t
      else if k = ''lots'' then lots t else if k = ''contract_size'' then contract_size t
      else if k = ''pip_size'' then pip_size t else if k = ''quote_to_usd'' then quote_to_usd t
      else if k = ''pips_to_sl'' then pips_to_sl t else if k = ''usd_to_sl'' then usd_to_sl t
      else if k = ''pips_to_tp'' then pips_to_tp t else if k = ''usd_to_tp'' then usd_to_tp t
      else if k = ''realized_pips'' then realized_pips t
      else if k = ''realized_usd'' then realized_usd t
      else None)"

definition column_value :: "string \<Rightarrow> trade_row \<Rightarrow> sqlval option" where
  "column_value k r =
     (if k = ''id'' then Some (SInt (fst r))
      else if k = ''timestamp'' then Some (SText (timestamp (snd r)))
      else if k = ''instrument'' then Some (SText (instrument (snd r)))
      else if k = ''direction'' then Some (SText (direction (snd r)))
      else if k = ''notes'' then Some (SText (notes (snd r)))
      else map_option SReal (real_column k (snd r)))"

fun num_eq :: "pyfloat \<Rightarrow> pyfloat \<Rightarrow> bool" where
  "num_eq NaN _ = False"
| "num_eq _ NaN = False"
| "num_eq a b = (a = b)"

fun sql_eq :: "sqlval option \<Rightarrow> sqlval \<Rightarrow> bool" where
  "sql_eq None _ = False"
| "sql_eq (Some (SInt a)) (SInt b) = (a = b)"
| "sql_eq (Some (SInt a)) (SReal b) = num_eq (Fin (real_of_int a)) b"
| "sql_eq (Some (SReal a)) (SInt b) = num_eq a (Fin (real_of_int b))"
| "sql_eq (Some (SReal a)) (SReal b) = num_eq a b"
| "sql_eq (Some (SText a)) (SText b) = (a = b)"
| "sql_eq _ _ = False"

text \<open>The conditions of the \<open>WHERE\<close> clause: one for each filter whose value is not \<open>None\<close>.\<close>

fun conditions :: "(string \<times> sqlval option) list \<Rightarrow> (string \<times> sqlval) list" where
  "conditions [] = []"
| "conditions ((k, None) # fs) = conditions fs"
| "conditions ((k, Some v) # fs) = (k, v) # conditions fs"

definition where_conditions :: "filters \<Rightarrow> (string \<times> sqlval) list" where
  "where_conditions fs = (case fs of None \<Rightarrow> [] | Some items \<Rightarrow> conditions items)"

fun row_matches :: "(string \<times> sqlval) list \<Rightarrow> trade_row \<Rightarrow> bool" where
  "row_matches [] r = True"
| "row_matches ((k, v) # cs) r = (sql_eq (column_value k r) v \<and> row_matches cs r)"

text \<open>
  \<open>ORDER BY timestamp DESC\<close> compares the texts byte by byte. SQL leaves the order of rows
  with equal timestamps open; here they keep their table order.
\<close>

fun insert_desc :: "trade_row \<Rightarrow> trade_row list \<Rightarrow> trade_row list" where
  "insert_desc r [] = [r]"
| "insert_desc r (x # xs) =
     (if timestamp (snd r) < timestamp (snd x) then x # insert_desc r xs else r # x # xs)"

definition order_by_timestamp_desc :: "trade_row list \<Rightarrow> trade_row list" where
  "order_by_timestamp_desc rs = foldr insert_desc rs []"

text \<open>\<open>LIMIT ?\<close>: a negative limit means no limit.\<close>

definition sql_limit :: "int \<Rightarrow> trade_row list \<Rightarrow> trade_row list" where
  "sql_limit limit rs = (if limit < 0 then rs else take (nat limit) rs)"

definition run_query :: "trade_row list \<Rightarrow> int \<Rightarrow> filters \<Rightarrow> error + trade_row list" where
  "run_query table limit fs =
     (let cs = where_conditions fs in
      if \<exists>k \<in> set (map fst cs). k \<notin> set column_names then Inl OperationalError
      else Inr (sql_limit limit (order_by_timestamp_desc (filter (row_matches cs) table))))"

text \<open>
  \<open>get_trades\<close> reads the clock twice: \<open>now1\<close> when it checks the age of a cached entry
  and \<open>now2\<close> when it stores a new one.
\<close>

definition get_trades ::
  "int \<Rightarrow> int \<Rightarrow> int \<Rightarrow> filters \<Rightarrow> tradedb \<Rightarrow> error + (trade_row list \<times> tradedb)" where
  "get_trades now1 now2 limit fs db =
     (let cache_key = (limit, fs);
          fetch = (case run_query (rows db) limit fs of
                     Inl e \<Rightarrow> Inl e
                   | Inr results \<Rightarrow>
                       Inr (results, db\<lparr>cache := (cache db)(cache_key \<mapsto> (now2, results))\<rparr>))
      in case cache db cache_key of
           None \<Rightarrow> fetch
         | Some (stored_at, results) \<Rightarrow>
             if now1 - stored_at < cache_expiry then Inr (results, db) else fetch)"

text \<open>
  \<open>delete_trade\<close> answers \<open>self.conn.total_changes > 0\<close>, read after the statement ran.
\<close>

definition delete_trade :: "int \<Rightarrow> tradedb \<Rightarrow> bool \<times> tradedb" where
  "delete_trade trade_id db =
     (let kept = filter (\<lambda>r. fst r \<noteq> trade_id) (rows db);
          db' = clear_cache (db\<lparr>rows := kept,
                   total_changes := total_changes db + (length (rows db) - length kept)\<rparr>)
      in (0 < total_changes db', db'))"

section \<open>Saving a trade\<close>

text \<open>
  An input field of the form holds text. What matters of a text is whether it is empty,
  is accepted by \<open>float()\<close> (and as which float), or is rejected by it.
\<close>

datatype field = Blank | Number pyfloat | Invalid

record form =
  instrument_var :: string
  direction_var :: string
  entry_var :: field
  stop_var :: field
  tp_var :: field
  exit_var :: field
  lots_var :: field
  contract_var :: field
  quote_rate_var :: field
  notes_var :: string

definition bind_err :: "error + 'a \<Rightarrow> ('a \<Rightarrow> error + 'b) \<Rightarrow> error + 'b" where
  "bind_err m k = (case m of Inl e \<Rightarrow> Inl e | Inr x \<Rightarrow> k x)"

text \<open>The truth value of an optional float: \<open>None\<close> and zero are false, NaN is true.\<close>

fun truthy :: "pyfloat option \<Rightarrow> bool" where
  "truthy None = False"
| "truthy (Some x) = (\<not> is_zero x)"

subsection \<open>\<open>trade_tracker_1.py\<close>\<close>

definition validate_float :: "field \<Rightarrow> bool \<Rightarrow> pyfloat option \<Rightarrow> error + pyfloat option" where
  "validate_float v required dflt =
     (case v of
        Blank \<Rightarrow> (if required then Inl ValueError else Inr dflt)
      | Number x \<Rightarrow> Inr (Some x)
      | Invalid \<Rightarrow> Inl ValueError)"

text \<open>Arithmetic on \<open>None\<close> raises \<open>TypeError\<close>.\<close>

definition float_arg :: "pyfloat option \<Rightarrow> error + pyfloat" where
  "float_arg v = (case v of None \<Rightarrow> Inl TypeError | Some x \<Rightarrow> Inr x)"

text \<open>
  \<open>calc_pips(entry, price, pip_size, direction) if price else None\<close> and
  \<open>usd_from_pips(pips, pip_value, lots) if pips else None\<close>.
\<close>

definition pips_if_truthy ::
  "pyfloat \<Rightarrow> pyfloat option \<Rightarrow> pyfloat \<Rightarrow> string \<Rightarrow> error + pyfloat option" where
  "pips_if_truthy en price ps d =
     (case price of
        None \<Rightarrow> Inr None
      | Some p \<Rightarrow> (if truthy (Some p) then bind_err (calc_pips_1 en p ps d) (\<lambda>v. Inr (Some v))
                   else Inr None))"

definition usd_if_truthy :: "pyfloat option \<Rightarrow> pyfloat \<Rightarrow> pyfloat \<Rightarrow> pyfloat option" where
  "usd_if_truthy pips pip_value lt =
     (case pips of
        None \<Rightarrow> None
      | Some v \<Rightarrow> (if truthy (Some v) then Some (usd_from_pips_1 v pip_value lt) else None))"

text \<open>
  The dictionary \<open>trade_data\<close> that \<open>save_trade\<close> builds from the form at the time \<open>now\<close>
  (the text of \<open>datetime.now().isoformat()\<close>), or the exception that stops it.
\<close>

definition save_trade_data_1 :: "string \<Rightarrow> form \<Rightarrow> error + trade_data" where
  "save_trade_data_1 now f =
     bind_err (lookup_instrument (instrument_var f)) (\<lambda>info.
     bind_err (bind_err (validate_float (entry_var f) True None) float_arg) (\<lambda>en.
     bind_err (validate_float (stop_var f) False None) (\<lambda>st.
     bind_err (validate_float (tp_var f) False None) (\<lambda>tp.
     bind_err (validate_float (exit_var f) False None) (\<lambda>exit_price.
     bind_err (bind_err (validate_float (lots_var f) True None) float_arg) (\<lambda>lt.
     bind_err (bind_err (validate_float (contract_var f) True (Some (contract info))) float_arg)
       (\<lambda>cs.
     bind_err (bind_err (validate_float (quote_rate_var f) (\<not> quote_usd info) (Some (Fin 1)))
                 float_arg) (\<lambda>quote_rate.
     bind_err (pip_value_usd_1 (pip info) cs (quote_usd info) quote_rate) (\<lambda>pip_value.
     bind_err (pips_if_truthy en st (pip info) (direction_var f)) (\<lambda>pips_sl.
     bind_err (Inr (usd_if_truthy pips_sl pip_value lt)) (\<lambda>usd_sl.
     bind_err (pips_if_truthy en tp (pip info) (direction_var f)) (\<lambda>pips_tp.
     bind_err (Inr (usd_if_truthy pips_tp pip_value lt)) (\<lambda>usd_tp.
     bind_err (pips_if_truthy en exit_price (pip info) (direction_var f)) (\<lambda>pips_real.
     bind_err (Inr (usd_if_truthy pips_real pip_value lt)) (\<lambda>usd_real.
     Inr \<lparr>timestamp = now, instrument = instrument_var f, direction = direction_var f,
          entry = Some en, stop = st, target = tp, exit = exit_price, lots = Some lt,
          contract_size = Some cs, pip_size = Some (pip info), quote_to_usd = Some quote_rate,
          pips_to_sl = pips_sl, usd_to_sl = usd_sl, pips_to_tp = pips_tp, usd_to_tp = usd_tp,
          realized_pips = pips_real, realized_usd = usd_real,
          notes = notes_var f\<rparr>)))))))))))))))"

text \<open>
  \<open>save_trade\<close>: the new state of the store, or the exception (a \<open>ValueError\<close> is shown
  in a message box, any other propagates); the store is unchanged by a failed call. The
  reload of the table that a successful call starts in a background thread is a call of
  \<open>get_trades\<close> of its own and is not part of this function.
\<close>

definition save_trade_1 :: "string \<Rightarrow> form \<Rightarrow> tradedb \<Rightarrow> error + tradedb" where
  "save_trade_1 now f db = bind_err (save_trade_data_1 now f) (\<lambda>td. Inr (snd (add_trade td db)))"

subsection \<open>\<open>trade_tracker.py\<close>\<close>

fun float_or_error :: "field \<Rightarrow> pyfloat option" where
  "float_or_error (Number x) = Some x"
| "float_or_error _ = None"

fun float_or_none :: "field \<Rightarrow> pyfloat option" where
  "float_or_none Blank = None"
| "float_or_none (Number x) = Some x"
| "float_or_none Invalid = None"

text \<open>
  \<open>calc_pips(entry, price, pip_size, direction) if price is not None else None\<close> and
  \<open>usd_from_pips(pips, pip_val, lots) if pips is not None else None\<close>.
\<close>

definition pips_if_not_none ::
  "pyfloat \<Rightarrow> pyfloat option \<Rightarrow> pyfloat \<Rightarrow> string \<Rightarrow> error + pyfloat option" where
  "pips_if_not_none en price ps d =
     (case price of
        None \<Rightarrow> Inr None
      | Some p \<Rightarrow> bind_err (calc_pips en p ps d) (\<lambda>v. Inr (Some v)))"

definition usd_if_not_none :: "pyfloat option \<Rightarrow> pyfloat \<Rightarrow> pyfloat \<Rightarrow> pyfloat option" where
  "usd_if_not_none pips pip_val lt =
     (case pips of None \<Rightarrow> None | Some v \<Rightarrow> Some (usd_from_pips v pip_val lt))"

text \<open>
  The six derived values of \<open>save_trade\<close>, in the order of the columns: pips and USD to
  the stop, pips and USD to the target, realized pips and realized USD.
\<close>

definition save_trade_derived ::
  "pyfloat \<Rightarrow> pyfloat option \<Rightarrow> pyfloat option \<Rightarrow> pyfloat option \<Rightarrow> pyfloat \<Rightarrow> pyfloat \<Rightarrow> pyfloat
   \<Rightarrow> string \<Rightarrow> error + pyfloat option list" where
  "save_trade_derived en st tp exit_price lt ps pip_val d =
     bind_err (pips_if_not_none en st ps d) (\<lambda>pips_sl.
     bind_err (pips_if_not_none en tp ps d) (\<lambda>pips_tp.
     bind_err (pips_if_not_none en exit_price ps d) (\<lambda>pips_real.
     Inr [pips_sl, usd_if_not_none pips_sl pip_val lt,
          pips_tp, usd_if_not_none pips_tp pip_val lt,
          pips_real, usd_if_not_none pips_real pip_val lt])))"

text \<open>
  \<open>save_trade\<close> of \<open>trade_tracker.py\<close>. \<open>Inr ()\<close> is the return after the message box
  for an entry price or lots that are no number. Past the derived values the function
  builds the row, and there it evaluates \<open>datetime.now(datetime.timezone.utc)\<close> with
  \<open>datetime\<close> bound to the class of that name, which has no attribute \<open>timezone\<close>: the
  call ends in \<open>AttributeError\<close> before anything is written to the file.
\<close>

definition save_trade :: "form \<Rightarrow> error + unit" where
  "save_trade f =
     bind_err (lookup_instrument (instrument_var f)) (\<lambda>info.
     case float_or_error (entry_var f) of
       None \<Rightarrow> Inr ()
     | Some en \<Rightarrow>
        (case float_or_error (lots_var f) of
           None \<Rightarrow> Inr ()
         | Some lt \<Rightarrow>
            bind_err (case contract_var f of
                        Blank \<Rightarrow> Inr (contract info)
                      | Number x \<Rightarrow> Inr x
                      | Invalid \<Rightarrow> Inl ValueError) (\<lambda>contract_override.
            let quote_rate = (if truthy (float_or_none (quote_rate_var f))
                              then (case float_or_none (quote_rate_var f) of
                                      Some x \<Rightarrow> x | None \<Rightarrow> Fin 1)
                              else Fin 1);
                pip_val = pip_value_usd (pip info) contract_override (quote_usd info) quote_rate
            in bind_err (save_trade_derived en (float_or_none (stop_var f))
                           (float_or_none (tp_var f)) (float_or_none (exit_var f)) lt (pip info)
                           pip_val (direction_var f))
                 (\<lambda>derived. Inl AttributeError))))"

section \<open>The dashboard of \<open>trade_tracker_1.py\<close>\<close>

text \<open>
  \<open>update_dashboard\<close> computes four numbers from the trades it is given and writes their
  texts on the cards (the average loss as its absolute value). The model returns the four
  numbers, or \<open>None\<close> when the function returns at once and leaves the cards as they are.
\<close>

record metrics =
  total_profit :: pyfloat
  win_rate :: pyfloat
  avg_win :: pyfloat
  avg_loss :: pyfloat

text \<open>\<open>pd.to_numeric(..., errors='coerce').fillna(0)\<close> on one cell.\<close>

fun to_numeric_fillna :: "pyfloat option \<Rightarrow> pyfloat" where
  "to_numeric_fillna None = Fin 0"
| "to_numeric_fillna (Some NaN) = Fin 0"
| "to_numeric_fillna (Some x) = x"

definition series_sum :: "pyfloat list \<Rightarrow> pyfloat" where
  "series_sum xs = fold (\<lambda>x acc. fadd acc x) xs (Fin 0)"

text \<open>The mean of a series; of an empty series it is NaN.\<close>

definition series_mean :: "pyfloat list \<Rightarrow> pyfloat" where
  "series_mean xs =
     (if xs = [] then NaN
      else (case fdiv (series_sum xs) (Fin (real (length xs))) of
              Inl e \<Rightarrow> NaN
            | Inr m \<Rightarrow> m))"

text \<open>\<open>x or 0\<close>: zero when \<open>x\<close> is false, that is when \<open>x == 0\<close>. NaN is true.\<close>

definition or_zero :: "pyfloat \<Rightarrow> pyfloat" where
  "or_zero x = (if truthy (Some x) then x else Fin 0)"

definition update_dashboard :: "trade_row list \<Rightarrow> metrics option" where
  "update_dashboard trades =
     (if trades = [] then None
      else
        (let df = map (\<lambda>r. to_numeric_fillna (realized_usd (snd r))) trades;
             winning_trades = length (filter fpos df);
             total_trades = length df
         in Some \<lparr>total_profit = series_sum df,
                  win_rate = (if total_trades > 0
                              then Fin (real winning_trades / real total_trades) else Fin 0),
                  avg_win = or_zero (series_mean (filter fpos df)),
                  avg_loss = or_zero (series_mean (filter fnegative df))\<rparr>))"

text \<open>
  The win rate in the words of the specification, for comparison: the number of records
  with a realized USD above zero over the number of records that have a realized USD,
  and zero when there is none.
\<close>

definition spec_win_rate :: "trade_row list \<Rightarrow> pyfloat" where
  "spec_win_rate trades =
     (let defined = filter (\<lambda>r. realized_usd (snd r) \<noteq> None) trades;
          wins = filter (\<lambda>r. case realized_usd (snd r) of None \<Rightarrow> False | Some x \<Rightarrow> fpos x) trades
      in if defined = [] then Fin 0
         else Fin (real (length wins) / real (length defined)))"

section \<open>Sequences of calls on a store\<close>

text \<open>
  A store is used through calls of \<open>add_trade\<close>, \<open>delete_trade\<close> and \<open>get_trades\<close>, one
  after the other. A \<open>get_trades\<close> that raises leaves the store as it was.
\<close>

datatype store_call = Add trade_data | Delete int | Get int int int filters

fun call :: "store_call \<Rightarrow> tradedb \<Rightarrow> tradedb" where
  "call (Add td) db = snd (add_trade td db)"
| "call (Delete i) db = snd (delete_trade i db)"
| "call (Get now1 now2 limit fs) db =
     (case get_trades now1 now2 limit fs db of Inl e \<Rightarrow> db | Inr (results, db') \<Rightarrow> db')"

text \<open>A cache is coherent when each entry is what its query gives on the table as it is now.\<close>

definition cache_coherent :: "tradedb \<Rightarrow> bool" where
  "cache_coherent db \<longleftrightarrow>
     (\<forall>limit fs stored_at results. cache db (limit, fs) = Some (stored_at, results)
        \<longrightarrow> run_query (rows db) limit fs = Inr results)"

section \<open>Vocabulary for the statements about the dashboard\<close>

text \<open>
  The realized USD of a row as a real number, with zero for a row that has none, and the
  rows whose realized USD is missing or a finite number.
\<close>

definition realized_value :: "trade_row \<Rightarrow> real" where
  "realized_value r = (case realized_usd (snd r) of Some (Fin x) \<Rightarrow> x | _ \<Rightarrow> 0)"

definition realized_finite :: "trade_row \<Rightarrow> bool" where
  "realized_finite r = (case realized_usd (snd r) of None \<Rightarrow> True | Some x \<Rightarrow> is_finite x)"

section \<open>Example inputs\<close>

text \<open>
  A form for one lot of gold bought at 1900, with a given stop and exit field, and a
  stored gold trade with a given realized USD.
\<close>

definition xau_long :: "field \<Rightarrow> field \<Rightarrow> form" where
  "xau_long st ex = \<lparr>instrument_var = ''XAUUSD'', direction_var = ''Long'',
     entry_var = Number (Fin 1900), stop_var = st, tp_var = Blank, exit_var = ex,
     lots_var = Number (Fin 1), contract_var = Number (Fin 100), quote_rate_var = Blank,
     notes_var = ''''\<rparr>"

definition xau_trade :: "string \<Rightarrow> pyfloat option \<Rightarrow> trade_data" where
  "xau_trade ts usd = \<lparr>timestamp = ts, instrument = ''XAUUSD'', direction = ''Long'',
     entry = Some (Fin 1900), stop = None, target = None, exit = None, lots = Some (Fin 1),
     contract_size = Some (Fin 100), pip_size = Some (Fin (1/100)),
     quote_to_usd = Some (Fin 1), pips_to_sl = None, usd_to_sl = None, pips_to_tp = None,
     usd_to_tp = None, realized_pips = None, realized_usd = usd, notes = ''''\<rparr>"

section \<open>Facts about the float operations\<close>

lemma to_float_zero: "to_float 0 = Fin 0"
  by (simp add: to_float_def)

lemma tiny_lt: "(1::real) / 2 ^ 1075 < 1 / 2 ^ 64"
  by (simp add: divide_simps power_strict_increasing_iff)

lemma huge_lt: "(2::real) ^ 64 < 2 ^ 1024 - 2 ^ 970"
proof -
  have "(2::real) ^ 1024 = 2 ^ 1023 + 2 ^ 1023" by simp
  moreover have "(2::real) ^ 970 \<le> 2 ^ 1023" by (rule power_increasing) simp_all
  moreover have "(2::real) ^ 64 < 2 ^ 1023" by (rule power_strict_increasing) simp_all
  ultimately show ?thesis by linarith
qed

text \<open>A number between \<open>2\<^sup>-\<^sup>6\<^sup>4\<close> and \<open>2\<^sup>6\<^sup>4\<close> in magnitude is well within the range.\<close>

lemma to_float_exact:
  assumes "1 / 2 ^ 64 \<le> \<bar>r\<bar>" and "\<bar>r\<bar> \<le> 2 ^ 64"
  shows "to_float r = Fin r"
proof -
  have "\<not> \<bar>r\<bar> \<le> 1 / 2 ^ 1075" using assms(1) tiny_lt by linarith
  moreover have "\<not> 2 ^ 1024 - 2 ^ 970 \<le> \<bar>r\<bar>" using assms(2) huge_lt by linarith
  ultimately show ?thesis by (simp only: to_float_def if_False)
qed

lemma to_float_underflow: "\<bar>r\<bar> \<le> 1 / 2 ^ 1075 \<Longrightarrow> to_float r = Fin 0"
  by (simp only: to_float_def if_True)

lemma to_float_cases:
  "to_float r = Fin 0 \<or> to_float r = Fin r \<or> to_float r = PInf \<or> to_float r = NInf"
  by (cases "\<bar>r\<bar> \<le> 1 / 2 ^ 1075"; cases "2 ^ 1024 - 2 ^ 970 \<le> \<bar>r\<bar>"; cases "r < 0")
     (simp_all only: to_float_def if_True if_False simp_thms)

lemma is_zero_to_float: "is_zero (to_float r) \<longleftrightarrow> \<bar>r\<bar> \<le> 1 / 2 ^ 1075"
proof (cases "\<bar>r\<bar> \<le> 1 / 2 ^ 1075")
  case True
  then have "to_float r = Fin 0" by (rule to_float_underflow)
  with True show ?thesis by simp
next
  case False
  then have "r \<noteq> 0" by auto
  moreover from to_float_cases [of r] False have
    "to_float r = Fin r \<or> to_float r = PInf \<or> to_float r = NInf"
    by (auto simp only: to_float_def if_False split: if_splits)
  ultimately show ?thesis using False by auto
qed

text \<open>
  The pip value of finite arguments is never NaN, and it is the exact one when the
  product of pip size and contract size is in range.
\<close>

lemma pip_value_usd_not_nan: "pip_value_usd (Fin p) (Fin c) q (Fin r) \<noteq> NaN"
  using to_float_cases [of "p * c"]
  by (auto simp: pip_value_usd_def inf_of_sign_def Let_def split: if_splits)

lemma pip_value_usd_exact:
  "to_float (p * c) = Fin (p * c) \<Longrightarrow>
   pip_value_usd (Fin p) (Fin c) q (Fin r) =
     Fin (if q then p * c else if r = 0 then p * c else p * c / r)"
  by (simp add: pip_value_usd_def)

lemma pip_value_usd_1_exact:
  "to_float (p * c) = Fin (p * c) \<Longrightarrow>
   pip_value_usd_1 (Fin p) (Fin c) q (Fin r) =
     (if q then Inr (Fin (p * c)) else if r = 0 then Inl ZeroDivisionError
      else Inr (Fin (p * c / r)))"
  by (simp add: pip_value_usd_1_def)

lemma calc_pips_fin:
  "ps \<noteq> 0 \<Longrightarrow> calc_pips (Fin e) (Fin p) (Fin ps) d =
     Inr (Fin (if d = ''Long'' then (p - e) / ps else (e - p) / ps))"
  by (simp add: calc_pips_def fsub_def)

lemma calc_pips_1_fin:
  "ps \<noteq> 0 \<Longrightarrow> calc_pips_1 (Fin e) (Fin p) (Fin ps) d =
     Inr (Fin (if d = ''Long'' then (p - e) / ps else (e - p) / ps))"
  by (simp add: calc_pips_1_def fsub_def)

lemma fdiv_no_error: "b \<noteq> Fin 0 \<Longrightarrow> \<exists>v. fdiv a b = Inr v"
  by (cases b; cases a) auto

lemma fdiv_zero_dividend: "b \<noteq> NaN \<Longrightarrow> \<not> is_zero b \<Longrightarrow> fdiv (Fin 0) b = Inr (Fin 0)"
  by (cases b) auto

text \<open>
  Two sample calculations: one lot of gold bought at 1900 with the stop at 1895, and one
  lot of USD/JPY bought at 150 and sold at 150.50 with a quote rate of 150.
\<close>

lemma gold_stop_example:
  "calc_pips (Fin 1900) (Fin 1895) (Fin (1/100)) ''Long'' = Inr (Fin (- 500)) \<and>
   pip_value_usd (Fin (1/100)) (Fin 100) True (Fin 1) = Fin 1 \<and>
   usd_from_pips (Fin (- 500)) (Fin 1) (Fin 1) = Fin (- 500)"
  by (simp add: calc_pips_fin pip_value_usd_def usd_from_pips_def to_float_exact)

lemma usdjpy_exit_example:
  "calc_pips (Fin 150) (Fin (301/2)) (Fin (1/100)) ''Long'' = Inr (Fin 50) \<and>
   pip_value_usd (Fin (1/100)) (Fin 100000) False (Fin 150) = Fin (20/3) \<and>
   usd_from_pips (Fin 50) (Fin (20/3)) (Fin 1) = Fin (1000/3)"
  by (simp add: calc_pips_fin pip_value_usd_def usd_from_pips_def to_float_exact)

section \<open>Pip value\<close>

text \<open>
  The module-level \<open>pip_value_usd\<close> of \<open>trade_tracker.py\<close> returns a float on every
  float input: the product when the quote currency is USD, the product again when it is
  not and the rate is zero, and the quotient otherwise.
\<close>

lemma pip_value_usd_total:
  "pip_value_usd p c True r = fmul p c"
  "pip_value_usd p c False (Fin 0) = fmul p c"
  "\<not> is_zero r \<Longrightarrow> fdiv (fmul p c) r = Inr (pip_value_usd p c False r)"
    apply (simp_all add: pip_value_usd_def)
  apply (cases r; cases "fmul p c"; simp)
  done

text \<open>
  C1 (pipValueUSD never raises and falls back to the undivided value at a zero rate).
  \<open>TradeCalculator.pip_value_usd\<close> of \<open>trade_tracker_1.py\<close> divides without the
  guard its sibling has: for USD/JPY (pip 0.01, contract 100000, quote not USD) and a
  quote rate of 0 it raises \<open>ZeroDivisionError\<close>, where the claim promises
  \<open>0.01 * 100000 = 1000\<close>.
\<close>

theorem pip_value_usd_1_zero_rate_raises:
  "pip_value_usd_1 (Fin (1/100)) (Fin 100000) False (Fin 0) = Inl ZeroDivisionError \<and>
   pip_value_usd (Fin (1/100)) (Fin 100000) False (Fin 0) = Fin 1000"
  by (simp add: pip_value_usd_1_def pip_value_usd_def to_float_exact)

section \<open>Pips between two prices\<close>

text \<open>
  C9 (the pips of a long position are the negation of the pips of a short one).
  For all finite entry and price and every nonzero finite pip size, both implementations
  return a value for either direction, and the value for \<open>Long\<close> is the negation of the
  value for \<open>Short\<close>.
\<close>

theorem calc_pips_long_is_neg_short:
  "ps \<noteq> 0 \<Longrightarrow>
   (\<exists>s. calc_pips (Fin e) (Fin p) (Fin ps) ''Short'' = Inr s \<and>
        calc_pips (Fin e) (Fin p) (Fin ps) ''Long'' = Inr (fneg s)) \<and>
   (\<exists>s. calc_pips_1 (Fin e) (Fin p) (Fin ps) ''Short'' = Inr s \<and>
        calc_pips_1 (Fin e) (Fin p) (Fin ps) ''Long'' = Inr (fneg s))"
  by (simp add: calc_pips_fin calc_pips_1_fin divide_simps)

theorem calc_pips_long_is_neg_short_witness:
  "(1/100::real) \<noteq> 0 \<and>
   calc_pips (Fin 1900) (Fin 1895) (Fin (1/100)) ''Long'' = Inr (Fin (- 500)) \<and>
   calc_pips (Fin 1900) (Fin 1895) (Fin (1/100)) ''Short'' = Inr (Fin 500) \<and>
   calc_pips_1 (Fin 1900) (Fin 1895) (Fin (1/100)) ''Long'' = Inr (Fin (- 500)) \<and>
   calc_pips_1 (Fin 1900) (Fin 1895) (Fin (1/100)) ''Short'' = Inr (Fin 500)"
  using calc_pips_long_is_neg_short [of "1/100" 1900 1895]
  by (simp add: calc_pips_def calc_pips_1_def fsub_def)

text \<open>
  C8 as the claim states it fails: neither implementation checks its arguments. With a
  NaN entry price the call returns NaN as an ordinary value; no error is signalled.
\<close>

theorem calc_pips_nan_counterexample:
  "\<not> is_finite NaN \<and>
   calc_pips NaN (Fin 1895) (Fin (1/100)) ''Long'' = Inr NaN \<and>
   calc_pips_1 NaN (Fin 1895) (Fin (1/100)) ''Long'' = Inr NaN"
  by (simp add: calc_pips_def calc_pips_1_def fsub_def)

text \<open>
  C8, amended. In both implementations \<open>calc_pips\<close> raises \<open>ZeroDivisionError\<close> when the
  pip size is zero, and in no other case: every other argument, finite or not, gives a
  returned float. For finite arguments and a nonzero pip size the value is
  \<open>(price - entry) / pip_size\<close> for \<open>Long\<close> and \<open>(entry - price) / pip_size\<close> for
  \<open>Short\<close>.
\<close>

theorem calc_pips_behaviour:
  "(calc_pips en pr (Fin 0) d = Inl ZeroDivisionError \<and>
    calc_pips_1 en pr (Fin 0) d = Inl ZeroDivisionError) \<and>
   (sz \<noteq> Fin 0 \<longrightarrow>
      (\<exists>v. calc_pips en pr sz d = Inr v) \<and>
      (\<exists>v. calc_pips_1 en pr sz d = Inr v)) \<and>
   (ps \<noteq> 0 \<longrightarrow>
      calc_pips (Fin e) (Fin p) (Fin ps) ''Long'' = Inr (Fin ((p - e) / ps)) \<and>
      calc_pips (Fin e) (Fin p) (Fin ps) ''Short'' = Inr (Fin ((e - p) / ps)) \<and>
      calc_pips_1 (Fin e) (Fin p) (Fin ps) ''Long'' = Inr (Fin ((p - e) / ps)) \<and>
      calc_pips_1 (Fin e) (Fin p) (Fin ps) ''Short'' = Inr (Fin ((e - p) / ps)))"
proof (intro conjI impI)
  show "calc_pips en pr (Fin 0) d = Inl ZeroDivisionError"
    by (simp add: calc_pips_def)
  show "calc_pips_1 en pr (Fin 0) d = Inl ZeroDivisionError"
    by (simp add: calc_pips_1_def)
next
  assume "sz \<noteq> Fin 0"
  then show "\<exists>v. calc_pips en pr sz d = Inr v"
    and "\<exists>v. calc_pips_1 en pr sz d = Inr v"
    by (simp_all add: calc_pips_def calc_pips_1_def fdiv_no_error)
next
  assume "ps \<noteq> 0"
  then show "calc_pips (Fin e) (Fin p) (Fin ps) ''Long'' = Inr (Fin ((p - e) / ps))"
    and "calc_pips (Fin e) (Fin p) (Fin ps) ''Short'' = Inr (Fin ((e - p) / ps))"
    and "calc_pips_1 (Fin e) (Fin p) (Fin ps) ''Long'' = Inr (Fin ((p - e) / ps))"
    and "calc_pips_1 (Fin e) (Fin p) (Fin ps) ''Short'' = Inr (Fin ((e - p) / ps))"
    by (simp_all add: calc_pips_fin calc_pips_1_fin)
qed

theorem calc_pips_behaviour_witness:
  "PInf \<noteq> Fin 0 \<and> (1/100::real) \<noteq> 0 \<and>
   calc_pips (Fin 150) (Fin 0) (Fin 0) ''Long'' = Inl ZeroDivisionError \<and>
   calc_pips (Fin 150) (Fin 0) PInf ''Long'' = Inr (Fin 0) \<and>
   calc_pips (Fin 150) (Fin (301/2)) (Fin (1/100)) ''Long'' = Inr (Fin 50) \<and>
   calc_pips_1 (Fin 150) (Fin (301/2)) (Fin (1/100)) ''Short'' = Inr (Fin (- 50))"
  using calc_pips_behaviour [of "Fin 150" "Fin 0" "''Long''" PInf "1/100" 150 "301/2"]
  by (simp add: calc_pips_def calc_pips_1_def fsub_def)

section \<open>Solving a price for a USD target\<close>

text \<open>
  On all floats, the module-level function answers \<open>None\<close> exactly when the pip value it
  computed is zero or the lots are zero, and the method of \<open>TradeCalculator\<close> does so
  whenever its pip value is computed at all.
\<close>

lemma price_from_usd_target_none_iff:
  "price_from_usd_target en d u sz c q r lt = Inr None
     \<longleftrightarrow> is_zero (pip_value_usd sz c q r) \<or> is_zero lt"
  by (auto simp: price_from_usd_target_def Let_def split: sum.splits)

lemma price_from_usd_target_1_none_iff:
  "pip_value_usd_1 sz c q r = Inr pv \<Longrightarrow>
   price_from_usd_target_1 en d u sz c q r lt = Inr None \<longleftrightarrow> is_zero pv \<or> is_zero lt"
  by (auto simp: price_from_usd_target_1_def Let_def split: sum.splits)

text \<open>
  For finite arguments whose two products are in range (the pip value times the lots, and
  the pips needed times the pip size) the price is the entry price plus (\<open>Long\<close>) or
  minus (\<open>Short\<close>) \<open>usd_target / (pip_val * lots) * pip_size\<close>.
\<close>

lemma price_from_usd_target_exact:
  assumes "pip_value_usd (Fin ps) (Fin c) q (Fin r) = Fin pv" and "pv \<noteq> 0" and "lt \<noteq> 0"
    and "to_float (pv * lt) = Fin (pv * lt)"
    and "to_float (u / (pv * lt) * ps) = Fin (u / (pv * lt) * ps)"
  shows "price_from_usd_target (Fin e) d (Fin u) (Fin ps) (Fin c) q (Fin r) (Fin lt) =
     Inr (Some (Fin (if d = ''Long'' then e + u / (pv * lt) * ps
                     else e - u / (pv * lt) * ps)))"
  using assms by (simp add: price_from_usd_target_def fsub_def Let_def)

lemma price_from_usd_target_1_exact:
  assumes "pip_value_usd_1 (Fin ps) (Fin c) q (Fin r) = Inr (Fin pv)" and "pv \<noteq> 0"
    and "lt \<noteq> 0" and "to_float (pv * lt) = Fin (pv * lt)"
    and "to_float (u / (pv * lt) * ps) = Fin (u / (pv * lt) * ps)"
  shows "price_from_usd_target_1 (Fin e) d (Fin u) (Fin ps) (Fin c) q (Fin r) (Fin lt) =
     Inr (Some (Fin (if d = ''Long'' then e + u / (pv * lt) * ps
                     else e - u / (pv * lt) * ps)))"
  using assms by (simp add: price_from_usd_target_1_def fsub_def Let_def)

lemma price_from_usd_target_example:
  "price_from_usd_target (Fin 1900) ''Long'' (Fin 500) (Fin (1/100)) (Fin 100) True (Fin 1) (Fin 2)
     = Inr (Some (Fin (3805/2))) \<and>
   price_from_usd_target (Fin 1900) ''Short'' (Fin 500) (Fin (1/100)) (Fin 100) True (Fin 1) (Fin 2)
     = Inr (Some (Fin (3795/2))) \<and>
   price_from_usd_target_1 (Fin 1900) ''Long'' (Fin 500) (Fin (1/100)) (Fin 100) True (Fin 1) (Fin 2)
     = Inr (Some (Fin (3805/2))) \<and>
   price_from_usd_target_1 (Fin 1900) ''Short'' (Fin 500) (Fin (1/100)) (Fin 100) True (Fin 1) (Fin 2)
     = Inr (Some (Fin (3795/2)))"
  by (simp add: price_from_usd_target_def price_from_usd_target_1_def pip_value_usd_def
      pip_value_usd_1_def fsub_def to_float_exact)

text \<open>
  C3 (no price exactly when the pip value or the lots are zero, and the solved price for
  every other quote flag and quote rate). \<open>TradeCalculator.price_from_usd_target\<close>
  takes its pip value from the unguarded \<open>TradeCalculator.pip_value_usd\<close>: for USD/JPY
  entered at 150 with a target of 500 USD, one lot and a quote rate of 0 it raises
  \<open>ZeroDivisionError\<close>. The pip value of the claim is \<open>0.01 * 100000 = 1000\<close> there and
  the price \<open>150 + 500 / (1000 * 1) * 0.01 = 150.005\<close>, which is what the function of
  \<open>trade_tracker.py\<close> returns.
\<close>

theorem price_from_usd_target_1_zero_rate_raises:
  "price_from_usd_target_1 (Fin 150) ''Long'' (Fin 500) (Fin (1/100)) (Fin 100000) False
     (Fin 0) (Fin 1) = Inl ZeroDivisionError \<and>
   price_from_usd_target (Fin 150) ''Long'' (Fin 500) (Fin (1/100)) (Fin 100000) False
     (Fin 0) (Fin 1) = Inr (Some (Fin (30001/200)))"
  by (simp add: price_from_usd_target_1_def pip_value_usd_1_def price_from_usd_target_def
      pip_value_usd_def to_float_exact)

text \<open>
  Both solvers compare the pip value and the lots with zero and then divide by their
  product. With a USD target of zero the answer is the entry price as soon as that product
  is not zero, for finite arguments and either direction.
\<close>

lemma fmul_pip_value_lots:
  assumes "lt \<noteq> 0" and "pv \<noteq> NaN"
  shows "fmul pv (Fin lt) \<noteq> NaN"
proof (cases pv)
  case (Fin x)
  then show ?thesis using to_float_cases [of "x * lt"] by auto
qed (use assms in \<open>auto simp: inf_of_sign_def\<close>)

lemma price_from_usd_target_zero_target_product:
  assumes "lt \<noteq> 0"
    and "\<not> is_zero (fmul (pip_value_usd (Fin ps) (Fin c) q (Fin r)) (Fin lt))"
  shows "price_from_usd_target (Fin e) d (Fin 0) (Fin ps) (Fin c) q (Fin r) (Fin lt)
     = Inr (Some (Fin e))"
proof -
  define pv where "pv = pip_value_usd (Fin ps) (Fin c) q (Fin r)"
  have nn: "pv \<noteq> NaN" unfolding pv_def by (rule pip_value_usd_not_nan)
  have nz: "\<not> is_zero pv"
  proof
    assume "is_zero pv"
    then have "pv = Fin 0" by (cases pv) auto
    then have "fmul pv (Fin lt) = Fin 0" by (simp add: to_float_zero)
    with assms(2) show False by (simp add: pv_def)
  qed
  have "fdiv (Fin 0) (fmul pv (Fin lt)) = Inr (Fin 0)"
    using fmul_pip_value_lots [OF assms(1) nn] assms(2)
    by (intro fdiv_zero_dividend) (simp_all add: pv_def)
  then show ?thesis
    using nz assms(1)
    by (simp add: price_from_usd_target_def Let_def fsub_def to_float_zero flip: pv_def)
qed

lemma price_from_usd_target_1_zero_target_product:
  assumes "lt \<noteq> 0" and "pip_value_usd_1 (Fin ps) (Fin c) q (Fin r) = Inr pv"
    and "\<not> is_zero (fmul pv (Fin lt))"
  shows "price_from_usd_target_1 (Fin e) d (Fin 0) (Fin ps) (Fin c) q (Fin r) (Fin lt)
     = Inr (Some (Fin e))"
proof -
  have nn: "pv \<noteq> NaN"
    using assms(2) to_float_cases [of "ps * c"]
    by (auto simp: pip_value_usd_1_def inf_of_sign_def Let_def split: if_splits)
  have nz: "\<not> is_zero pv"
  proof
    assume "is_zero pv"
    then have "pv = Fin 0" by (cases pv) auto
    then have "fmul pv (Fin lt) = Fin 0" by (simp add: to_float_zero)
    with assms(3) show False by simp
  qed
  have "fdiv (Fin 0) (fmul pv (Fin lt)) = Inr (Fin 0)"
    using fmul_pip_value_lots [OF assms(1) nn] assms(3)
    by (intro fdiv_zero_dividend) simp_all
  then show ?thesis
    using nz assms(1,2)
    by (simp add: price_from_usd_target_1_def Let_def fsub_def to_float_zero)
qed

text \<open>
  C10 (a USD target of zero solves to the entry price whenever the pip value and the lots
  are nonzero). The product of two nonzero floats can be zero. For a pip size of 1e-200, a
  contract size of 1, a USD quote and 1e-200 lots the pip value is 1e-200 and the lots
  are nonzero, their product 1e-400 is below the least positive float and is zero, and
  the division by it raises \<open>ZeroDivisionError\<close> in both implementations, where the
  claim promises the entry price 5.
\<close>

theorem price_from_usd_target_zero_target_underflow:
  "pip_value_usd (Fin (1 / 10 ^ 200)) (Fin 1) True (Fin 1) = Fin (1 / 10 ^ 200) \<and>
   pip_value_usd_1 (Fin (1 / 10 ^ 200)) (Fin 1) True (Fin 1) = Inr (Fin (1 / 10 ^ 200)) \<and>
   price_from_usd_target (Fin 5) ''Long'' (Fin 0) (Fin (1 / 10 ^ 200)) (Fin 1) True (Fin 1)
     (Fin (1 / 10 ^ 200)) = Inl ZeroDivisionError \<and>
   price_from_usd_target_1 (Fin 5) ''Long'' (Fin 0) (Fin (1 / 10 ^ 200)) (Fin 1) True (Fin 1)
     (Fin (1 / 10 ^ 200)) = Inl ZeroDivisionError"
  by (simp add: price_from_usd_target_def price_from_usd_target_1_def pip_value_usd_def
      pip_value_usd_1_def to_float_def)

text \<open>
  Over exact arithmetic the solved price is a left inverse of the chain from pips to USD:
  for finite arguments, a nonzero pip value and nonzero lots, and with every product of
  the round trip in range, \<open>price_from_usd_target\<close> returns a price, \<open>calc_pips\<close> from the
  entry to that price returns a number of pips, and \<open>usd_from_pips\<close> of these pips, the
  same pip value and the same lots is the USD target.
\<close>

lemma price_from_usd_target_left_inverse_exact:
  assumes "pip_value_usd (Fin ps) (Fin c) q (Fin r) = Fin pv" and "pv \<noteq> 0" and "lt \<noteq> 0"
    and "ps \<noteq> 0"
    and "to_float (pv * lt) = Fin (pv * lt)"
    and "to_float (u / (pv * lt) * ps) = Fin (u / (pv * lt) * ps)"
    and "to_float (u / (pv * lt) * pv) = Fin (u / (pv * lt) * pv)"
    and "to_float (u / (pv * lt) * pv * lt) = Fin (u / (pv * lt) * pv * lt)"
  shows "\<exists>x pips.
     price_from_usd_target (Fin e) d (Fin u) (Fin ps) (Fin c) q (Fin r) (Fin lt)
       = Inr (Some x) \<and>
     calc_pips (Fin e) x (Fin ps) d = Inr pips \<and>
     usd_from_pips pips (pip_value_usd (Fin ps) (Fin c) q (Fin r)) (Fin lt) = Fin u"
proof -
  define x where "x = (if d = ''Long'' then e + u / (pv * lt) * ps
                          else e - u / (pv * lt) * ps)"
  have solved: "price_from_usd_target (Fin e) d (Fin u) (Fin ps) (Fin c) q (Fin r) (Fin lt)
      = Inr (Some (Fin x))"
    unfolding x_def using assms(1,2,3,5,6) by (rule price_from_usd_target_exact)
  have pips: "calc_pips (Fin e) (Fin x) (Fin ps) d = Inr (Fin (u / (pv * lt)))"
    using assms(4) by (simp add: calc_pips_fin x_def)
  have "u / (pv * lt) * pv * lt = u" using assms(2,3) by simp
  then have usd: "usd_from_pips (Fin (u / (pv * lt))) (Fin pv) (Fin lt) = Fin u"
    using assms(7,8) by (simp add: usd_from_pips_def)
  show ?thesis using solved pips usd assms(1) by simp
qed

lemma price_from_usd_target_left_inverse_example:
  "price_from_usd_target (Fin 150) ''Short'' (Fin 500) (Fin (1/100)) (Fin 100000) False (Fin 150) (Fin 2)
     = Inr (Some (Fin (1197/8))) \<and>
   calc_pips (Fin 150) (Fin (1197/8)) (Fin (1/100)) ''Short'' = Inr (Fin (75/2)) \<and>
   usd_from_pips (Fin (75/2)) (pip_value_usd (Fin (1/100)) (Fin 100000) False (Fin 150)) (Fin 2)
     = Fin 500"
  by (simp add: price_from_usd_target_def pip_value_usd_def calc_pips_fin usd_from_pips_def
      fsub_def to_float_exact)

text \<open>
  C2 (feeding the solved price back through the chain yields the USD target, for every
  nonzero target, nonzero lots and nonzero pip value). For a pip size of 1e-200, a
  contract size of 1, a USD quote, 1e-200 lots and a target of 500 USD the pip value
  1e-200 and the lots are nonzero, but their product is zero as a float:
  \<open>price_from_usd_target\<close> raises \<open>ZeroDivisionError\<close> and there is no price to feed
  back.
\<close>

theorem price_from_usd_target_left_inverse_underflow:
  "pip_value_usd (Fin (1 / 10 ^ 200)) (Fin 1) True (Fin 1) = Fin (1 / 10 ^ 200) \<and>
   price_from_usd_target (Fin 5) ''Long'' (Fin 500) (Fin (1 / 10 ^ 200)) (Fin 1) True (Fin 1)
     (Fin (1 / 10 ^ 200)) = Inl ZeroDivisionError"
  by (simp add: price_from_usd_target_def pip_value_usd_def to_float_def)

section \<open>Saving a trade: the derived fields\<close>

lemma lookup_instrument_xau:
  "lookup_instrument ''XAUUSD'' =
     Inr \<lparr>pip = Fin (1/100), contract = Fin 100, quote_usd = True, desc = ''Gold (pip=0.01)''\<rparr>"
  by (simp add: lookup_instrument_def INSTRUMENTS_def)

text \<open>
  In \<open>trade_tracker.py\<close> the derived values are computed behind \<open>is not None\<close> tests:
  with a nonzero pip size all six are computed, and each is \<open>None\<close> exactly when its
  price is \<open>None\<close>, whatever the values are.
\<close>

lemma pips_if_not_none_present:
  "b \<noteq> Fin 0 \<Longrightarrow> \<exists>v. pips_if_not_none en price b d = Inr v \<and> (v = None \<longleftrightarrow> price = None)"
proof (cases price)
  case None
  then show ?thesis by (simp add: pips_if_not_none_def)
next
  case (Some p)
  assume "b \<noteq> Fin 0"
  then obtain v where "calc_pips en p b d = Inr v"
    unfolding calc_pips_def using fdiv_no_error by (metis (full_types))
  with Some show ?thesis by (simp add: pips_if_not_none_def bind_err_def)
qed

lemma save_trade_derived_present:
  assumes "b \<noteq> Fin 0"
  shows "\<exists>vs. save_trade_derived en st tp ex lt b pv d = Inr vs \<and>
     map (\<lambda>v. v = None) vs = [st = None, st = None, tp = None, tp = None, ex = None, ex = None]"
proof -
  obtain v1 where v1: "pips_if_not_none en st b d = Inr v1" "v1 = None \<longleftrightarrow> st = None"
    using pips_if_not_none_present [OF assms] by blast
  obtain v2 where v2: "pips_if_not_none en tp b d = Inr v2" "v2 = None \<longleftrightarrow> tp = None"
    using pips_if_not_none_present [OF assms] by blast
  obtain v3 where v3: "pips_if_not_none en ex b d = Inr v3" "v3 = None \<longleftrightarrow> ex = None"
    using pips_if_not_none_present [OF assms] by blast
  show ?thesis
    using v1 v2 v3
    by (auto simp: save_trade_derived_def bind_err_def usd_if_not_none_def split: option.splits)
qed

text \<open>
  Yet \<open>save_trade\<close> of \<open>trade_tracker.py\<close> never writes the row: when the entry price and
  the lots are numbers, every call ends in an exception.
\<close>

lemma save_trade_raises:
  "float_or_error (entry_var f) = Some en \<Longrightarrow> float_or_error (lots_var f) = Some lt \<Longrightarrow>
   \<exists>e. save_trade f = Inl e"
  by (auto simp: save_trade_def bind_err_def Let_def split: sum.splits field.splits)

text \<open>
  C7 (a derived field is stored as null exactly when its price is absent, and a derived
  value of zero is stored). \<open>save_trade\<close> of \<open>trade_tracker_1.py\<close> tests the truth value
  of the price and of the pips instead of comparing them with \<open>None\<close>. For a long gold
  trade entered at 1900 with the stop at 1900 the stored row has the stop and zero pips
  to the stop, and no USD at the stop, where the claim promises that 0 is stored.
\<close>

theorem save_trade_1_zero_pips_drops_usd:
  "save_trade_1 now (xau_long (Number (Fin 1900)) Blank) (TradeDB_init [] 0) =
     Inr \<lparr>rows = [(1, \<lparr>timestamp = now, instrument = ''XAUUSD'', direction = ''Long'',
              entry = Some (Fin 1900), stop = Some (Fin 1900), target = None, exit = None,
              lots = Some (Fin 1), contract_size = Some (Fin 100),
              pip_size = Some (Fin (1/100)), quote_to_usd = Some (Fin 1),
              pips_to_sl = Some (Fin 0), usd_to_sl = None, pips_to_tp = None,
              usd_to_tp = None, realized_pips = None, realized_usd = None,
              notes = ''''\<rparr>)],
          seq = 1, total_changes = 1, cache = Map.empty\<rparr>"
  by (simp add: save_trade_1_def save_trade_data_1_def xau_long_def lookup_instrument_xau
      bind_err_def validate_float_def float_arg_def pip_value_usd_1_def pips_if_truthy_def
      usd_if_truthy_def calc_pips_1_def fsub_def add_trade_def TradeDB_init_def
      clear_cache_def next_rowid_def bind_trade_def to_float_exact)

section \<open>Deleting a trade\<close>

lemma rows_delete_trade: "rows (snd (delete_trade i db)) = filter (\<lambda>r. fst r \<noteq> i) (rows db)"
  by (simp add: delete_trade_def clear_cache_def Let_def)

lemma cache_delete_trade: "cache (snd (delete_trade i db)) = Map.empty"
  by (simp add: delete_trade_def clear_cache_def Let_def)

text \<open>
  What \<open>delete_trade\<close> does to the table is what the claim says: an id that is in no row
  leaves the rows as they are, and a second deletion of the same id changes nothing.
\<close>

lemma delete_trade_absent:
  "i \<notin> fst ` set (rows db) \<Longrightarrow> rows (snd (delete_trade i db)) = rows db"
  by (auto simp: rows_delete_trade filter_id_conv)

lemma delete_trade_twice:
  "snd (delete_trade i (snd (delete_trade i db))) = snd (delete_trade i db)"
  by (simp add: delete_trade_def clear_cache_def Let_def)

text \<open>The answer, however, is whether the connection has changed any row so far.\<close>

lemma delete_trade_answer:
  "fst (delete_trade i db) \<longleftrightarrow>
     0 < total_changes db + length (filter (\<lambda>r. fst r = i) (rows db))"
proof -
  have "length (rows db) - length (filter (\<lambda>r. fst r \<noteq> i) (rows db))
      = length (filter (\<lambda>r. fst r = i) (rows db))"
    using sum_length_filter_compl [of "\<lambda>r. fst r = i" "rows db"] by simp
  then have "total_changes (snd (delete_trade i db))
      = total_changes db + length (filter (\<lambda>r. fst r = i) (rows db))"
    by (simp add: delete_trade_def clear_cache_def Let_def)
  moreover have "fst (delete_trade i db) \<longleftrightarrow> 0 < total_changes (snd (delete_trade i db))"
    by (simp add: delete_trade_def Let_def)
  ultimately show ?thesis by simp
qed

text \<open>
  C5 (deleting an id that was never added returns false). On a new store, after one trade
  has been added (it gets the id 1), deleting the id 2 removes nothing and leaves the one
  row in place, and the call answers \<open>True\<close>: \<open>total_changes\<close> counts the insert.
\<close>

theorem delete_trade_absent_answers_true:
  "fst (delete_trade 2 (snd (add_trade td (TradeDB_init [] 0)))) = True \<and>
   map fst (rows (snd (add_trade td (TradeDB_init [] 0)))) = [1] \<and>
   rows (snd (delete_trade 2 (snd (add_trade td (TradeDB_init [] 0)))))
     = rows (snd (add_trade td (TradeDB_init [] 0)))"
  by (simp add: delete_trade_def add_trade_def TradeDB_init_def clear_cache_def
      next_rowid_def Let_def)

section \<open>The cache of the store\<close>

lemma set_insert_desc: "set (insert_desc r xs) = insert r (set xs)"
  by (induction xs) auto

lemma set_order_by_timestamp_desc: "set (order_by_timestamp_desc rs) = set rs"
  unfolding order_by_timestamp_desc_def by (induction rs) (auto simp: set_insert_desc)

lemma length_insert_desc: "length (insert_desc r xs) = Suc (length xs)"
  by (induction xs) auto

lemma length_order_by_timestamp_desc: "length (order_by_timestamp_desc rs) = length rs"
  unfolding order_by_timestamp_desc_def by (induction rs) (auto simp: length_insert_desc)

lemma rows_add_trade: "rows (snd (add_trade td db)) = rows db @ [(next_rowid db, bind_trade td)]"
  by (simp add: add_trade_def clear_cache_def Let_def)

lemma cache_add_trade: "cache (snd (add_trade td db)) = Map.empty"
  by (simp add: add_trade_def clear_cache_def Let_def)

lemma get_trades_miss:
  "cache db (limit, fs) = None \<Longrightarrow>
   get_trades now1 now2 limit fs db =
     bind_err (run_query (rows db) limit fs)
       (\<lambda>results. Inr (results, db\<lparr>cache := (cache db)((limit, fs) \<mapsto> (now2, results))\<rparr>))"
  by (simp add: get_trades_def bind_err_def Let_def)

lemma cache_coherent_empty: "cache db = Map.empty \<Longrightarrow> cache_coherent db"
  by (simp add: cache_coherent_def)

text \<open>
  On a coherent cache \<open>get_trades\<close> returns what the query gives on the table, whether it
  answers from the cache or not, and it leaves the cache coherent.
\<close>

lemma get_trades_coherent:
  assumes "cache_coherent db" and "get_trades now1 now2 limit fs db = Inr (results, db')"
  shows "run_query (rows db) limit fs = Inr results \<and> rows db' = rows db \<and> cache_coherent db'"
proof (cases "cache db (limit, fs)")
  case None
  with assms(2) obtain res where r: "run_query (rows db) limit fs = Inr res"
    and eq: "results = res" "db' = db\<lparr>cache := (cache db)((limit, fs) \<mapsto> (now2, res))\<rparr>"
    by (auto simp: get_trades_miss bind_err_def split: sum.splits)
  show ?thesis using assms(1) r eq by (auto simp: cache_coherent_def)
next
  case (Some ent)
  obtain t res where ent: "ent = (t, res)" by (cases ent)
  have c: "run_query (rows db) limit fs = Inr res"
    using assms(1) Some ent by (auto simp: cache_coherent_def)
  show ?thesis
  proof (cases "now1 - t < cache_expiry")
    case True
    with assms(2) Some ent have "results = res" "db' = db"
      by (auto simp: get_trades_def Let_def)
    with c assms(1) show ?thesis by simp
  next
    case False
    with assms(2) Some ent c have "results = res"
      "db' = db\<lparr>cache := (cache db)((limit, fs) \<mapsto> (now2, res))\<rparr>"
      by (auto simp: get_trades_def Let_def)
    with c assms(1) show ?thesis by (auto simp: cache_coherent_def)
  qed
qed

lemma call_coherent: "cache_coherent db \<Longrightarrow> cache_coherent (call c db)"
proof (cases c)
  case (Add td)
  then show ?thesis by (simp add: cache_coherent_empty cache_add_trade)
next
  case (Delete i)
  then show ?thesis by (simp add: cache_coherent_empty cache_delete_trade)
next
  case (Get n1 n2 l fs)
  assume co: "cache_coherent db"
  show ?thesis
  proof (cases "get_trades n1 n2 l fs db")
    case (Inl e)
    with Get co show ?thesis by simp
  next
    case (Inr p)
    obtain res db' where p: "p = (res, db')" by (cases p)
    with Inr get_trades_coherent [OF co] have "cache_coherent db'" by blast
    with Get Inr p show ?thesis by simp
  qed
qed

lemma calls_coherent: "cache_coherent db \<Longrightarrow> cache_coherent (fold call cs db)"
  by (induction cs arbitrary: db) (auto simp: call_coherent)

lemma run_query_contains:
  assumes "r \<in> set table" and "row_matches (where_conditions fs) r"
    and "\<forall>k \<in> set (map fst (where_conditions fs)). k \<in> set column_names"
    and "limit < 0 \<or> int (length table) \<le> limit"
  shows "\<exists>res. run_query table limit fs = Inr res \<and> r \<in> set res"
proof -
  let ?sel = "order_by_timestamp_desc (filter (row_matches (where_conditions fs)) table)"
  have q: "run_query table limit fs = Inr (sql_limit limit ?sel)"
    using assms(3) by (auto simp: run_query_def Let_def)
  have "length ?sel \<le> length table" by (simp add: length_order_by_timestamp_desc)
  with assms(4) have "sql_limit limit ?sel = ?sel"
    by (auto simp: sql_limit_def)
  moreover have "r \<in> set ?sel" using assms(1,2) by (simp add: set_order_by_timestamp_desc)
  ultimately show ?thesis using q by simp
qed

text \<open>
  C6 (every add or delete empties the cache, so a query right after an add reflects the
  new record). After \<open>add_trade\<close> and after \<open>delete_trade\<close> the cache is empty, whatever
  it held and however fresh. Hence \<open>get_trades\<close> right after \<open>add_trade\<close>, for any limit,
  filters and clock readings, runs the query on the table that has the new row; the new
  row is in the answer when it matches the filters and the limit does not cut the answer
  short. And in every state that calls of the three operations lead to from a newly
  opened store, a \<open>get_trades\<close> that returns gives the answer of the query on the table
  as it is then.
\<close>

theorem add_trade_then_get_trades_fresh:
  "cache (snd (add_trade td db)) = Map.empty \<and>
   cache (snd (delete_trade i db)) = Map.empty \<and>
   get_trades now1 now2 limit fs (snd (add_trade td db)) =
     bind_err (run_query (rows db @ [(next_rowid db, bind_trade td)]) limit fs)
       (\<lambda>results. Inr (results,
          (snd (add_trade td db))\<lparr>cache := [(limit, fs) \<mapsto> (now2, results)]\<rparr>)) \<and>
   (row_matches (where_conditions fs) (next_rowid db, bind_trade td) \<and>
    (\<forall>k \<in> set (map fst (where_conditions fs)). k \<in> set column_names) \<and>
    (limit < 0 \<or> int (length (rows db)) < limit) \<longrightarrow>
      (\<exists>results db'.
         get_trades now1 now2 limit fs (snd (add_trade td db)) = Inr (results, db') \<and>
         (next_rowid db, bind_trade td) \<in> set results)) \<and>
   (get_trades now1 now2 limit fs (fold call cs (TradeDB_init rs sq)) = Inr (answer, db2) \<longrightarrow>
      run_query (rows (fold call cs (TradeDB_init rs sq))) limit fs = Inr answer)"
proof (intro conjI impI)
  show "cache (snd (add_trade td db)) = Map.empty" by (rule cache_add_trade)
  show "cache (snd (delete_trade i db)) = Map.empty" by (rule cache_delete_trade)
  show g: "get_trades now1 now2 limit fs (snd (add_trade td db)) =
     bind_err (run_query (rows db @ [(next_rowid db, bind_trade td)]) limit fs)
       (\<lambda>results. Inr (results,
          (snd (add_trade td db))\<lparr>cache := [(limit, fs) \<mapsto> (now2, results)]\<rparr>))"
    by (simp add: get_trades_miss cache_add_trade rows_add_trade)
  {
    assume a: "row_matches (where_conditions fs) (next_rowid db, bind_trade td) \<and>
      (\<forall>k \<in> set (map fst (where_conditions fs)). k \<in> set column_names) \<and>
      (limit < 0 \<or> int (length (rows db)) < limit)"
    have "\<exists>res. run_query (rows db @ [(next_rowid db, bind_trade td)]) limit fs = Inr res \<and>
       (next_rowid db, bind_trade td) \<in> set res"
      using a by (intro run_query_contains) auto
    then show "\<exists>results db'.
         get_trades now1 now2 limit fs (snd (add_trade td db)) = Inr (results, db') \<and>
         (next_rowid db, bind_trade td) \<in> set results"
      unfolding g by (auto simp: bind_err_def)
  }
  {
    assume r: "get_trades now1 now2 limit fs (fold call cs (TradeDB_init rs sq))
        = Inr (answer, db2)"
    have "cache_coherent (fold call cs (TradeDB_init rs sq))"
      by (intro calls_coherent cache_coherent_empty) (simp add: TradeDB_init_def)
    from get_trades_coherent [OF this r]
    show "run_query (rows (fold call cs (TradeDB_init rs sq))) limit fs = Inr answer"
      by simp
  }
qed

theorem add_trade_then_get_trades_fresh_witness:
  "row_matches (where_conditions None) (1, bind_trade (xau_trade ''2024-01-02T10:00:00'' None)) \<and>
   map fst (where_conditions None) = [] \<and>
   ((200::int) < 0 \<or> int (length (rows (call (Get 0 0 200 None) (TradeDB_init [] 0)))) < 200) \<and>
   cache (call (Get 0 0 200 None) (TradeDB_init [] 0)) (200, None) = Some (0, []) \<and>
   get_trades 1 2 200 None
      (snd (add_trade (xau_trade ''2024-01-02T10:00:00'' None)
              (call (Get 0 0 200 None) (TradeDB_init [] 0))))
     = Inr ([(1, xau_trade ''2024-01-02T10:00:00'' None)],
            \<lparr>rows = [(1, xau_trade ''2024-01-02T10:00:00'' None)], seq = 1, total_changes = 1,
             cache = [(200, None) \<mapsto> (2, [(1, xau_trade ''2024-01-02T10:00:00'' None)])]\<rparr>) \<and>
   get_trades 1 2 200 None
      (fold call [Get 0 0 200 None, Add (xau_trade ''2024-01-02T10:00:00'' None)]
         (TradeDB_init [] 0))
     = Inr ([(1, xau_trade ''2024-01-02T10:00:00'' None)],
            \<lparr>rows = [(1, xau_trade ''2024-01-02T10:00:00'' None)], seq = 1, total_changes = 1,
             cache = [(200, None) \<mapsto> (2, [(1, xau_trade ''2024-01-02T10:00:00'' None)])]\<rparr>) \<and>
   run_query (rows (fold call [Get 0 0 200 None, Add (xau_trade ''2024-01-02T10:00:00'' None)]
                      (TradeDB_init [] 0))) 200 None
     = Inr [(1, xau_trade ''2024-01-02T10:00:00'' None)]"
  using add_trade_then_get_trades_fresh
    [where td = "xau_trade ''2024-01-02T10:00:00'' None"
       and db = "call (Get 0 0 200 None) (TradeDB_init [] 0)"
       and ?now1.0 = 1 and ?now2.0 = 2 and limit = 200 and fs = None
       and cs = "[Get 0 0 200 None, Add (xau_trade ''2024-01-02T10:00:00'' None)]"
       and rs = "[]" and sq = 0
       and answer = "[(1, xau_trade ''2024-01-02T10:00:00'' None)]"
       and ?db2.0 = "\<lparr>rows = [(1, xau_trade ''2024-01-02T10:00:00'' None)], seq = 1,
             total_changes = 1,
             cache = [(200, None) \<mapsto> (2, [(1, xau_trade ''2024-01-02T10:00:00'' None)])]\<rparr>"]
  by (simp add: get_trades_def run_query_def where_conditions_def sql_limit_def
      order_by_timestamp_desc_def add_trade_def TradeDB_init_def clear_cache_def next_rowid_def
      bind_trade_def xau_trade_def bind_err_def Let_def)

section \<open>The dashboard\<close>

lemma fold_fadd_fin: "fold (\<lambda>x acc. fadd acc x) (map Fin xs) (Fin a) = Fin (a + sum_list xs)"
  by (induction xs arbitrary: a) (auto simp: algebra_simps)

lemma series_sum_fin: "series_sum (map Fin xs) = Fin (sum_list xs)"
  by (simp add: series_sum_def fold_fadd_fin)

lemma filter_fpos_fin: "filter fpos (map Fin xs) = map Fin (filter (\<lambda>x. 0 < x) xs)"
  by (induction xs) auto

lemma filter_fnegative_fin: "filter fnegative (map Fin xs) = map Fin (filter (\<lambda>x. x < 0) xs)"
  by (induction xs) auto

lemma sum_list_pos: "xs \<noteq> [] \<Longrightarrow> \<forall>x \<in> set xs. (0::real) < x \<Longrightarrow> 0 < sum_list xs"
proof (induction xs)
  case Nil
  then show ?case by simp
next
  case (Cons a xs)
  have "0 \<le> sum_list xs"
    using Cons.prems(2) by (intro sum_list_nonneg) (simp add: less_imp_le)
  moreover have "0 < a" using Cons.prems(2) by simp
  ultimately show ?case by simp
qed

lemma sum_list_neg: "xs \<noteq> [] \<Longrightarrow> \<forall>x \<in> set xs. x < (0::real) \<Longrightarrow> sum_list xs < 0"
proof (induction xs)
  case Nil
  then show ?case by simp
next
  case (Cons a xs)
  have "sum_list xs \<le> 0"
    using Cons.prems(2) by (intro sum_list_nonpos) (simp add: less_imp_le)
  moreover have "a < 0" using Cons.prems(2) by simp
  ultimately show ?case by simp
qed

lemma series_mean_fin:
  "xs \<noteq> [] \<Longrightarrow> series_mean (map Fin xs) = Fin (sum_list xs / real (length xs))"
  by (simp add: series_mean_def series_sum_fin)

lemma realized_column_fin:
  "\<forall>r \<in> set trades. realized_finite r \<Longrightarrow>
   map (\<lambda>r. to_numeric_fillna (realized_usd (snd r))) trades = map Fin (map realized_value trades)"
proof (induction trades)
  case Nil
  then show ?case by simp
next
  case (Cons r rs)
  have "to_numeric_fillna (realized_usd (snd r)) = Fin (realized_value r)"
    using Cons.prems by (cases "realized_usd (snd r)")
      (auto simp: realized_finite_def realized_value_def elim: is_finite.elims)
  with Cons show ?case by simp
qed

text \<open>
  C4 as the claim states it fails. Of two trades, one with a realized USD of 10 and one
  with none, the dashboard reports a win rate of one half: the trade without a realized
  USD is counted, as a trade that realized 0. The claim's quotient, over the trades that
  have a realized USD, is 1. And for no trades at all nothing is computed.
\<close>

theorem update_dashboard_win_rate_counterexample:
  "map_option win_rate
     (update_dashboard [(1, xau_trade ''2024-01-01T09:00:00'' (Some (Fin 10))),
                        (2, xau_trade ''2024-01-02T09:00:00'' None)]) = Some (Fin (1/2)) \<and>
   spec_win_rate [(1, xau_trade ''2024-01-01T09:00:00'' (Some (Fin 10))),
                  (2, xau_trade ''2024-01-02T09:00:00'' None)] = Fin 1 \<and>
   update_dashboard [] = None"
  by (simp add: update_dashboard_def spec_win_rate_def xau_trade_def Let_def)

text \<open>
  When no trade has a positive realized USD, the average win is the mean of an empty
  series, NaN, and \<open>or 0\<close> keeps it, since NaN is true; likewise the average loss.
\<close>

lemma update_dashboard_avg_win_nan:
  "map_option avg_win (update_dashboard [(1, xau_trade ''2024-01-01T09:00:00'' (Some (Fin (- 10))))])
     = Some NaN"
  by (simp add: update_dashboard_def xau_trade_def Let_def or_zero_def series_mean_def)

text \<open>
  C4, amended. For no trades \<open>update_dashboard\<close> computes nothing. For a non-empty list of
  trades whose realized USD is missing or finite, with a missing one counted as 0: the
  total is the sum; the win rate is the number of trades with a realized USD above zero
  over the number of all trades; the average win is the mean of the realized USD above
  zero when there is one, and the average loss the mean of those below zero when there
  is one.
\<close>

theorem update_dashboard_metrics:
  "update_dashboard [] = None \<and>
   (trades \<noteq> [] \<and> (\<forall>r \<in> set trades. realized_finite r) \<longrightarrow>
     (\<exists>m. update_dashboard trades = Some m \<and>
       total_profit m = Fin (sum_list (map realized_value trades)) \<and>
       win_rate m = Fin (real (length (filter (\<lambda>x. 0 < x) (map realized_value trades)))
                         / real (length trades)) \<and>
       (filter (\<lambda>x. 0 < x) (map realized_value trades) \<noteq> [] \<longrightarrow>
          avg_win m = Fin (sum_list (filter (\<lambda>x. 0 < x) (map realized_value trades))
                           / real (length (filter (\<lambda>x. 0 < x) (map realized_value trades))))) \<and>
       (filter (\<lambda>x. x < 0) (map realized_value trades) \<noteq> [] \<longrightarrow>
          avg_loss m = Fin (sum_list (filter (\<lambda>x. x < 0) (map realized_value trades))
                            / real (length (filter (\<lambda>x. x < 0) (map realized_value trades)))))))"
proof (intro conjI impI)
  show "update_dashboard [] = None" by (simp add: update_dashboard_def)
next
  assume a: "trades \<noteq> [] \<and> (\<forall>r \<in> set trades. realized_finite r)"
  define vals where "vals = map realized_value trades"
  define wins where "wins = filter (\<lambda>x. 0 < x) vals"
  define losses where "losses = filter (\<lambda>x. x < 0) vals"
  have col: "map (\<lambda>r. to_numeric_fillna (realized_usd (snd r))) trades = map Fin vals"
    unfolding vals_def using a by (intro realized_column_fin) simp
  have len: "length vals = length trades" by (simp add: vals_def)
  have w: "wins \<noteq> [] \<longrightarrow> or_zero (series_mean (map Fin wins))
             = Fin (sum_list wins / real (length wins))"
  proof
    assume ne: "wins \<noteq> []"
    then have "0 < sum_list wins" by (intro sum_list_pos) (auto simp: wins_def)
    with ne have "sum_list wins / real (length wins) \<noteq> 0" by simp
    with ne show "or_zero (series_mean (map Fin wins)) = Fin (sum_list wins / real (length wins))"
      by (simp add: series_mean_fin or_zero_def)
  qed
  have l: "losses \<noteq> [] \<longrightarrow> or_zero (series_mean (map Fin losses))
             = Fin (sum_list losses / real (length losses))"
  proof
    assume ne: "losses \<noteq> []"
    then have "sum_list losses < 0" by (intro sum_list_neg) (auto simp: losses_def)
    with ne have "sum_list losses / real (length losses) \<noteq> 0" by simp
    with ne show "or_zero (series_mean (map Fin losses))
        = Fin (sum_list losses / real (length losses))"
      by (simp add: series_mean_fin or_zero_def)
  qed
  have "update_dashboard trades = Some \<lparr>total_profit = Fin (sum_list vals),
          win_rate = Fin (real (length wins) / real (length trades)),
          avg_win = or_zero (series_mean (map Fin wins)),
          avg_loss = or_zero (series_mean (map Fin losses))\<rparr>"
    using a
    by (simp only: update_dashboard_def Let_def col series_sum_fin filter_fpos_fin
        filter_fnegative_fin wins_def losses_def length_map len if_False)
       (simp add: len)
  then show "\<exists>m. update_dashboard trades = Some m \<and>
       total_profit m = Fin (sum_list (map realized_value trades)) \<and>
       win_rate m = Fin (real (length (filter (\<lambda>x. 0 < x) (map realized_value trades)))
                         / real (length trades)) \<and>
       (filter (\<lambda>x. 0 < x) (map realized_value trades) \<noteq> [] \<longrightarrow>
          avg_win m = Fin (sum_list (filter (\<lambda>x. 0 < x) (map realized_value trades))
                           / real (length (filter (\<lambda>x. 0 < x) (map realized_value trades))))) \<and>
       (filter (\<lambda>x. x < 0) (map realized_value trades) \<noteq> [] \<longrightarrow>
          avg_loss m = Fin (sum_list (filter (\<lambda>x. x < 0) (map realized_value trades))
                            / real (length (filter (\<lambda>x. x < 0) (map realized_value trades)))))"
    using w l unfolding wins_def losses_def vals_def by simp
qed

theorem update_dashboard_metrics_witness:
  "[(1::int, xau_trade ''2024-01-01T09:00:00'' (Some (Fin 10))),
    (2, xau_trade ''2024-01-02T09:00:00'' None),
    (3, xau_trade ''2024-01-03T09:00:00'' (Some (Fin (- 4))))] \<noteq> [] \<and>
   realized_finite (1, xau_trade ''2024-01-01T09:00:00'' (Some (Fin 10))) \<and>
   realized_finite (2, xau_trade ''2024-01-02T09:00:00'' None) \<and>
   realized_finite (3, xau_trade ''2024-01-03T09:00:00'' (Some (Fin (- 4)))) \<and>
   update_dashboard [(1, xau_trade ''2024-01-01T09:00:00'' (Some (Fin 10))),
                     (2, xau_trade ''2024-01-02T09:00:00'' None),
                     (3, xau_trade ''2024-01-03T09:00:00'' (Some (Fin (- 4))))]
     = Some \<lparr>total_profit = Fin 6, win_rate = Fin (1/3), avg_win = Fin 10,
             avg_loss = Fin (- 4)\<rparr>"
  using update_dashboard_metrics
    [of "[(1, xau_trade ''2024-01-01T09:00:00'' (Some (Fin 10))),
          (2, xau_trade ''2024-01-02T09:00:00'' None),
          (3, xau_trade ''2024-01-03T09:00:00'' (Some (Fin (- 4))))]"]
  by (simp add: update_dashboard_def xau_trade_def realized_finite_def Let_def
      series_sum_def series_mean_def or_zero_def)

end
